theory Spec2Isabelle
  imports Complex_Main "HOL-Library.Product_Lexorder"
begin

section \<open>Values exchanged with the client\<close>

text \<open>
  The route handlers of \<^verbatim>\<open>src/index.js\<close> answer with
  \<^verbatim>\<open>res.status(n).json(v)\<close>. A response is the status code together with the JSON
  value. Numbers are exact rationals: the rounding of IEEE doubles is not part of the
  model.
\<close>

datatype json =
    JNull
  | JNum rat
  | JStr string
  | JArr "json list"
  | JObj "(string \<times> json) list"

type_synonym response = "nat \<times> json"

text \<open>Reading a field of a JSON object.\<close>

fun json_get :: "string \<Rightarrow> json \<Rightarrow> json option" where
  "json_get k (JObj kvs) = map_of kvs k"
| "json_get k _ = None"

text \<open>
  The bodies the handlers send on failure: \<^verbatim>\<open>{ error }\<close> and
  \<^verbatim>\<open>{ error, details }\<close>. Outside development mode no stack trace goes with them.
\<close>

definition refusal :: "string \<Rightarrow> json" where
  "refusal e = JObj [(''error'', JStr e)]"

definition failure :: "string \<Rightarrow> string \<Rightarrow> json" where
  "failure e details = JObj [(''error'', JStr e), (''details'', JStr details)]"

text \<open>
  Fields of a JSON request body are optional numbers (\<open>None\<close> is \<^verbatim>\<open>undefined\<close>);
  the parameters of a path or of a query string are strings. \<^verbatim>\<open>!v\<close> holds of a missing
  field, of the number 0 and of the empty string; the handlers below write the test out
  on the option.
\<close>

subsection \<open>Numbers as decimal strings\<close>

definition digit_char :: "nat \<Rightarrow> char" where
  "digit_char d = ''0123456789'' ! (d mod 10)"

text \<open>The template literal \<^verbatim>\<open>`${n}`\<close> of a non-negative integer.\<close>

fun show_nat :: "nat \<Rightarrow> string" where
  "show_nat n = (if n < 10 then [digit_char n] else show_nat (n div 10) @ [digit_char (n mod 10)])"

declare show_nat.simps [simp del]

text \<open>
  \<^verbatim>\<open>s.replace(pat, rep)\<close> with a string pattern replaces the first occurrence of
  \<open>pat\<close> in \<open>s\<close>, wherever it stands.
\<close>

fun replace_first :: "string \<Rightarrow> string \<Rightarrow> string \<Rightarrow> string" where
  "replace_first pat rep [] = (if pat = [] then rep else [])"
| "replace_first pat rep (c # cs) =
     (if take (length pat) (c # cs) = pat then rep @ drop (length pat) (c # cs)
      else c # replace_first pat rep cs)"

subsection \<open>Dates\<close>

text \<open>
  A point in time by its fields: year, month, day, hour, minute, second, millisecond.
  The lexicographic order of the tuple is the order of time.
\<close>

type_synonym timestamp = "nat \<times> nat \<times> nat \<times> nat \<times> nat \<times> nat \<times> nat"

definition pad :: "nat \<Rightarrow> string \<Rightarrow> string" where
  "pad w s = replicate (w - length s) (CHR ''0'') @ s"

text \<open>\<^verbatim>\<open>toISOString\<close> of a Date whose UTC fields are \<open>t\<close>.\<close>

definition toISOString :: "timestamp \<Rightarrow> string" where
  "toISOString t =
     (case t of (y, mo, d, h, mi, s, ms) \<Rightarrow>
        (if y \<le> 9999 then pad 4 (show_nat y) else CHR ''+'' # pad 6 (show_nat y))
        @ ''-'' @ pad 2 (show_nat mo) @ ''-'' @ pad 2 (show_nat d)
        @ ''T'' @ pad 2 (show_nat h) @ '':'' @ pad 2 (show_nat mi) @ '':'' @ pad 2 (show_nat s)
        @ ''.'' @ pad 3 (show_nat ms) @ ''Z'')"

text \<open>\<^verbatim>\<open>d.toISOString().split("T")[0]\<close>: the text before the first \<open>T\<close>.\<close>

definition iso_date :: "timestamp \<Rightarrow> string" where
  "iso_date t = takeWhile (\<lambda>c. c \<noteq> CHR ''T'') (toISOString t)"

text \<open>
  \<^verbatim>\<open>x.toFixed(2)\<close> rounds the magnitude to hundredths, a tie going up, and the sign
  goes in front; \<^verbatim>\<open>parseFloat\<close> of that text is the rounded number.
\<close>

definition hundredths :: "rat \<Rightarrow> nat" where
  "hundredths x = nat \<lfloor>\<bar>x\<bar> * 100 + 1 / 2\<rfloor>"

definition toFixed2 :: "rat \<Rightarrow> string" where
  "toFixed2 x =
     (if x < 0 then ''-'' else '''') @ show_nat (hundredths x div 100) @ ''.''
      @ pad 2 (show_nat (hundredths x mod 100))"

definition round2 :: "rat \<Rightarrow> rat" where
  "round2 x = (if x < 0 then - 1 else 1) * of_nat (hundredths x) / 100"

section \<open>The relational store\<close>

text \<open>
  Modelled from the spec: the table declarations are not among the source files. The
  columns are those the statements of \<^verbatim>\<open>src/index.js\<close> read and write, as section 3
  of the specification lists them; \<open>cart\<close> has the composite key
  \<open>(user_id, product_id)\<close>, \<open>orders.id\<close> is assigned by the store from a counter, and
  a price is a decimal of two places. A table is the list of its rows in insertion order.
  A statement the store receives succeeds.
\<close>

record product_row =
  p_id :: nat
  p_name :: string
  p_price :: rat
  p_image :: string

record cart_row =
  c_user_id :: nat
  c_product_id :: nat
  c_quantity :: int

record order_row =
  o_id :: nat
  o_user_id :: nat
  o_order_date :: timestamp
  o_total_amount :: rat

record order_item_row =
  oi_order_id :: nat
  oi_product_id :: nat
  oi_quantity :: int
  oi_price :: rat

record database =
  products :: "product_row list"
  cart :: "cart_row list"
  orders :: "order_row list"
  order_items :: "order_item_row list"
  next_order_id :: nat

subsection \<open>Statements on the cart table\<close>

text \<open>\<^verbatim>\<open>SELECT * FROM cart WHERE user_id = ? AND product_id = ?\<close>\<close>

definition select_cart :: "nat \<Rightarrow> nat \<Rightarrow> database \<Rightarrow> cart_row list" where
  "select_cart u p db = filter (\<lambda>r. c_user_id r = u \<and> c_product_id r = p) (cart db)"

text \<open>
  \<^verbatim>\<open>UPDATE cart SET quantity = ? WHERE user_id = ? AND product_id = ?\<close>, with the
  number of rows the condition matched.
\<close>

definition update_cart :: "int \<Rightarrow> nat \<Rightarrow> nat \<Rightarrow> database \<Rightarrow> nat \<times> database" where
  "update_cart q u p db =
     (length (select_cart u p db),
      db\<lparr>cart := map (\<lambda>r. if c_user_id r = u \<and> c_product_id r = p
                            then r\<lparr>c_quantity := q\<rparr> else r) (cart db)\<rparr>)"

text \<open>\<^verbatim>\<open>INSERT INTO cart (user_id, product_id, quantity) VALUES (?, ?, ?)\<close>\<close>

definition insert_cart :: "nat \<Rightarrow> nat \<Rightarrow> int \<Rightarrow> database \<Rightarrow> database" where
  "insert_cart u p q db =
     db\<lparr>cart := cart db @ [\<lparr>c_user_id = u, c_product_id = p, c_quantity = q\<rparr>]\<rparr>"

text \<open>\<^verbatim>\<open>INSERT ... ON DUPLICATE KEY UPDATE quantity = ?\<close>\<close>

definition upsert_cart :: "nat \<Rightarrow> nat \<Rightarrow> int \<Rightarrow> database \<Rightarrow> database" where
  "upsert_cart u p q db =
     (if select_cart u p db = [] then insert_cart u p q db else snd (update_cart q u p db))"

text \<open>
  \<^verbatim>\<open>DELETE FROM cart WHERE user_id = ? AND product_id = ?\<close>, with the number of
  rows deleted.
\<close>

definition delete_cart :: "nat \<Rightarrow> nat \<Rightarrow> database \<Rightarrow> nat \<times> database" where
  "delete_cart u p db =
     (length (select_cart u p db),
      db\<lparr>cart := filter (\<lambda>r. \<not> (c_user_id r = u \<and> c_product_id r = p)) (cart db)\<rparr>)"

text \<open>\<^verbatim>\<open>DELETE FROM cart WHERE user_id = ?\<close>\<close>

definition delete_cart_of_user :: "nat \<Rightarrow> database \<Rightarrow> database" where
  "delete_cart_of_user u db = db\<lparr>cart := filter (\<lambda>r. c_user_id r \<noteq> u) (cart db)\<rparr>"

text \<open>
  The join of the cart rows of a user with the catalog:
  \<^verbatim>\<open>FROM cart c JOIN products p ON c.product_id = p.id WHERE c.user_id = ?\<close>.
  The user comes from the path, so it is a string; \<open>key\<close> is how the store reads a string
  it compares with an integer column.
\<close>

definition select_cart_join ::
  "(string \<Rightarrow> nat option) \<Rightarrow> string \<Rightarrow> database \<Rightarrow> (cart_row \<times> product_row) list" where
  "select_cart_join key userId db =
     concat (map (\<lambda>c. map (\<lambda>p. (c, p)) (filter (\<lambda>p. p_id p = c_product_id c) (products db)))
                 (filter (\<lambda>c. key userId = Some (c_user_id c)) (cart db)))"

text \<open>\<^verbatim>\<open>SELECT id FROM products WHERE id = ?\<close>\<close>

definition select_product :: "nat \<Rightarrow> database \<Rightarrow> product_row list" where
  "select_product p db = filter (\<lambda>r. p_id r = p) (products db)"

subsection \<open>Statements on the order tables\<close>

text \<open>
  \<^verbatim>\<open>INSERT INTO orders (user_id, order_date, total_amount) VALUES (?, NOW(), ?)\<close>
  with its \<^verbatim>\<open>insertId\<close>. \<open>clock\<close> is what the clock of the store reads.
\<close>

definition insert_order :: "nat \<Rightarrow> timestamp \<Rightarrow> rat \<Rightarrow> database \<Rightarrow> nat \<times> database" where
  "insert_order u clock amount db =
     (next_order_id db,
      db\<lparr>orders := orders db @ [\<lparr>o_id = next_order_id db, o_user_id = u,
                                  o_order_date = clock, o_total_amount = amount\<rparr>],
         next_order_id := Suc (next_order_id db)\<rparr>)"

text \<open>\<^verbatim>\<open>INSERT INTO order_items (order_id, product_id, quantity, price) VALUES ?\<close>\<close>

definition insert_order_items :: "order_item_row list \<Rightarrow> database \<Rightarrow> database" where
  "insert_order_items rows db = db\<lparr>order_items := order_items db @ rows\<rparr>"

text \<open>
  \<^verbatim>\<open>SELECT ... FROM orders o WHERE o.user_id = ? ORDER BY o.order_date DESC\<close>. The
  user comes from the query string.
\<close>

definition select_orders :: "(string \<Rightarrow> nat option) \<Rightarrow> string \<Rightarrow> database \<Rightarrow> order_row list" where
  "select_orders key userId db =
     rev (sort_key o_order_date (filter (\<lambda>r. key userId = Some (o_user_id r)) (orders db)))"

text \<open>
  \<^verbatim>\<open>FROM order_items oi JOIN products p ON oi.product_id = p.id WHERE ...\<close>, the
  condition on \<open>oi\<close> given as a predicate.
\<close>

definition select_items_join ::
  "(order_item_row \<Rightarrow> bool) \<Rightarrow> database \<Rightarrow> (order_item_row \<times> product_row) list" where
  "select_items_join cond db =
     concat (map (\<lambda>oi. map (\<lambda>p. (oi, p)) (filter (\<lambda>p. p_id p = oi_product_id oi) (products db)))
                 (filter cond (order_items db)))"

section \<open>The connection\<close>

text \<open>
  Line 2 of \<^verbatim>\<open>src/index.js\<close> requires \<^verbatim>\<open>mysql2\<close>, and
  \<^verbatim>\<open>getConnectionWithRetry\<close> (lines 26 to 39) resolves with the connection that
  \<^verbatim>\<open>pool.getConnection\<close> hands to its callback: a connection of the driver's callback
  interface. Its \<^verbatim>\<open>query\<close>, \<^verbatim>\<open>beginTransaction\<close>, \<^verbatim>\<open>commit\<close> and
  \<^verbatim>\<open>rollback\<close> send the statement and return a command object, not a promise; the
  object's \<^verbatim>\<open>then\<close> throws an \<^verbatim>\<open>Error\<close>, so awaiting it throws. \<open>Callback m\<close>
  is such a connection, \<open>m\<close> the message of that error. \<open>Promise\<close> is the connection of
  the driver's promise interface, which the handlers are written against: awaiting a
  call gives the rows, or the result header with \<^verbatim>\<open>insertId\<close> and
  \<^verbatim>\<open>affectedRows\<close>.
\<close>

datatype connection = Callback string | Promise

text \<open>
  A request is modelled from the moment the pool has handed a connection over (until then
  \<^verbatim>\<open>getConnectionWithRetry\<close> tries again every five seconds).
\<close>

definition getConnectionWithRetry :: "string \<Rightarrow> connection" where
  "getConnectionWithRetry m = Callback m"

text \<open>
  What a connection has in hand: the store as its statements see it, and, while a
  transaction is open, the store as it was when the transaction began.
\<close>

record session =
  store :: database
  began :: "database option"

text \<open>
  \<^verbatim>\<open>connection.query(sql, values)\<close> sends a statement; the statement acts on the
  store and has a result. \<open>reading\<close> and \<open>writing\<close> make a statement of a query and of
  an update without a result.
\<close>

definition query :: "(database \<Rightarrow> 'a \<times> database) \<Rightarrow> session \<Rightarrow> 'a \<times> session" where
  "query stmt s = (fst (stmt (store s)), s\<lparr>store := snd (stmt (store s))\<rparr>)"

definition reading :: "(database \<Rightarrow> 'a) \<Rightarrow> database \<Rightarrow> 'a \<times> database" where
  "reading f db = (f db, db)"

definition writing :: "(database \<Rightarrow> database) \<Rightarrow> database \<Rightarrow> unit \<times> database" where
  "writing f db = ((), f db)"

text \<open>
  \<^verbatim>\<open>START TRANSACTION\<close>, \<^verbatim>\<open>COMMIT\<close> and \<^verbatim>\<open>ROLLBACK\<close>, as
  \<^verbatim>\<open>beginTransaction\<close>, \<^verbatim>\<open>commit\<close> and \<^verbatim>\<open>rollback\<close> send them.
\<close>

definition beginTransaction :: "session \<Rightarrow> unit \<times> session" where
  "beginTransaction s = ((), s\<lparr>began := Some (store s)\<rparr>)"

definition commit :: "session \<Rightarrow> unit \<times> session" where
  "commit s = ((), s\<lparr>began := None\<rparr>)"

definition rollback :: "session \<Rightarrow> unit \<times> session" where
  "rollback s =
     ((), (case began s of None \<Rightarrow> s | Some before \<Rightarrow> \<lparr>store = before, began = None\<rparr>))"

subsection \<open>Asynchronous functions\<close>

text \<open>
  The body of an \<^verbatim>\<open>async\<close> function, run on a session: it comes to a value
  (\<open>Inr\<close>) or throws an error with a message (\<open>Inl\<close>).
\<close>

type_synonym 'a async = "session \<Rightarrow> (string + 'a) \<times> session"

definition resolve :: "'a \<Rightarrow> 'a async" where
  "resolve a s = (Inr a, s)"

definition throw :: "string \<Rightarrow> 'a async" where
  "throw e s = (Inl e, s)"

definition and_then :: "'a async \<Rightarrow> ('a \<Rightarrow> 'b async) \<Rightarrow> 'b async" where
  "and_then f g s = (case f s of (Inl e, s') \<Rightarrow> (Inl e, s') | (Inr a, s') \<Rightarrow> g a s')"

definition try_catch :: "'a async \<Rightarrow> (string \<Rightarrow> 'a async) \<Rightarrow> 'a async" where
  "try_catch f h s = (case f s of (Inl e, s') \<Rightarrow> h e s' | (Inr a, s') \<Rightarrow> (Inr a, s'))"

text \<open>
  \<^verbatim>\<open>await connection.f(...)\<close>: the call is made, so the statement is sent and acts
  on the store; then the promise interface gives its result, and the callback interface
  throws.
\<close>

definition await :: "connection \<Rightarrow> (session \<Rightarrow> 'a \<times> session) \<Rightarrow> 'a async" where
  "await c call s =
     (case c of
        Promise \<Rightarrow> (Inr (fst (call s)), snd (call s))
      | Callback m \<Rightarrow> (Inl m, snd (call s)))"

text \<open>
  A handler run on a request: the response it sent, if it sent one (an error that leaves
  the handler leaves the request without a response), and the store as other connections
  see it afterwards (without what an open transaction has not committed). The connection
  is taken to come from the pool with no transaction open.
\<close>

definition answer :: "response async \<Rightarrow> database \<Rightarrow> response option \<times> database" where
  "answer h db =
     (case h \<lparr>store = db, began = None\<rparr> of
        (r, s) \<Rightarrow>
          ((case r of Inl e \<Rightarrow> None | Inr x \<Rightarrow> Some x),
           (case began s of None \<Rightarrow> store s | Some before \<Rightarrow> before)))"

subsection \<open>What the handlers take from outside the file\<close>

text \<open>
  \<open>conn\<close> is the connection \<^verbatim>\<open>getConnectionWithRetry\<close> resolves with. \<open>sql_key s\<close>
  is the natural number the store reads the string \<open>s\<close> as when it compares it with an
  integer column, if it reads it as one. \<open>parseInt n\<close> is \<^verbatim>\<open>parseInt(n, 10)\<close> of a
  number. \<open>utc_fields t\<close> are the UTC fields of the Date the driver builds from the
  stored date \<open>t\<close>. \<open>now\<close> is what the clock of the store reads and \<open>wall\<close> the UTC
  fields of \<^verbatim>\<open>new Date()\<close>.
\<close>

record runtime =
  conn :: connection
  sql_key :: "string \<Rightarrow> nat option"
  parseInt :: "int \<Rightarrow> int"
  utc_fields :: "timestamp \<Rightarrow> timestamp"
  now :: timestamp
  wall :: timestamp

text \<open>The file as it is written: the connection is the one of line 2 and lines 26 to 39.\<close>

definition as_written :: "string \<Rightarrow> runtime \<Rightarrow> runtime" where
  "as_written m rt = rt\<lparr>conn := getConnectionWithRetry m\<rparr>"

text \<open>The handlers on the interface they are written against.\<close>

definition promised :: "runtime \<Rightarrow> runtime" where
  "promised rt = rt\<lparr>conn := Promise\<rparr>"

section \<open>Routing\<close>

text \<open>
  Express keeps the handlers of a route in the order of registration and runs the first
  one. No handler of \<^verbatim>\<open>src/index.js\<close> passes control on (none calls
  \<^verbatim>\<open>next\<close>), so a second handler registered for the same method and path never runs.
\<close>

type_synonym 'req handler = "'req \<Rightarrow> database \<Rightarrow> response option \<times> database"

fun dispatch :: "'req handler list \<Rightarrow> 'req handler" where
  "dispatch [] req db = (Some (404, JNull), db)"
| "dispatch (h # hs) req db = h req db"

section \<open>The cart store\<close>

definition cart_fields_required :: json where
  "cart_fields_required = refusal ''User ID, Product ID, and Quantity are required''"

definition cartItem :: "nat \<Rightarrow> nat \<Rightarrow> int \<Rightarrow> json" where
  "cartItem user_id product_id quantity =
     JObj [(''user_id'', JNum (of_nat user_id)), (''product_id'', JNum (of_nat product_id)),
           (''quantity'', JNum (of_int quantity))]"

text \<open>
  \<^verbatim>\<open>app.post("/api/cart", ...)\<close>, the first registration (line 171). Its
  \<^verbatim>\<open>try\<close> block has two awaited steps: the lookup (lines 185 to 188) and, with the
  rows, the write and the answer (lines 190 to 223). The \<^verbatim>\<open>catch\<close> is lines 224 to
  230.
\<close>

definition cart_lookup :: "runtime \<Rightarrow> nat \<Rightarrow> nat \<Rightarrow> cart_row list async" where
  "cart_lookup rt u p = await (conn rt) (query (reading (select_cart u p)))"

definition cart_merge :: "runtime \<Rightarrow> nat \<Rightarrow> nat \<Rightarrow> int \<Rightarrow> cart_row list \<Rightarrow> response async" where
  "cart_merge rt u p q existingCartItems =
     (case existingCartItems of
        existing # _ \<Rightarrow>
          (let newQuantity = c_quantity existing + q in
           and_then (await (conn rt) (query (update_cart newQuantity u p)))
             (\<lambda>_. resolve (200, JObj [(''message'', JStr ''Cart updated successfully''),
                                      (''cartItem'', cartItem u p newQuantity)])))
      | [] \<Rightarrow>
          and_then (await (conn rt) (query (writing (insert_cart u p q))))
            (\<lambda>_. resolve (200, JObj [(''message'', JStr ''Product added to cart successfully''),
                                     (''cartItem'', cartItem u p q)])))"

definition cart_failed :: "string \<Rightarrow> response async" where
  "cart_failed err = resolve (500, failure ''Failed to manage cart'' err)"

definition post_api_cart_first ::
  "runtime \<Rightarrow> nat option \<Rightarrow> nat option \<Rightarrow> int option \<Rightarrow> database
     \<Rightarrow> response option \<times> database" where
  "post_api_cart_first rt user_id product_id quantity =
     answer
       (case (user_id, product_id, quantity) of
          (Some u, Some p, Some q) \<Rightarrow>
            if u = 0 \<or> p = 0 \<or> q = 0 then resolve (400, cart_fields_required)
            else try_catch (and_then (cart_lookup rt u p) (cart_merge rt u p q)) cart_failed
        | _ \<Rightarrow> resolve (400, cart_fields_required))"

text \<open>
  \<^verbatim>\<open>app.post("/api/cart", ...)\<close>, the second registration (line 238, "Enhanced
  version with additional checks"). Its \<^verbatim>\<open>catch\<close> awaits a rollback before it
  answers.
\<close>

definition post_api_cart_second ::
  "runtime \<Rightarrow> nat option \<Rightarrow> nat option \<Rightarrow> int option \<Rightarrow> database
     \<Rightarrow> response option \<times> database" where
  "post_api_cart_second rt user_id product_id quantity =
     answer
       (case (user_id, product_id, quantity) of
          (Some u, Some p, Some q) \<Rightarrow>
            if u = 0 \<or> p = 0 \<or> q = 0 then resolve (400, cart_fields_required)
            else
              let parsedQuantity = parseInt rt q in
              if parsedQuantity \<le> 0
              then resolve (400, refusal ''Quantity must be a positive number'')
              else
                try_catch
                  (and_then (await (conn rt) beginTransaction) (\<lambda>_.
                   and_then (await (conn rt) (query (reading (select_product p)))) (\<lambda>productCheck.
                     if productCheck = []
                     then and_then (await (conn rt) rollback)
                            (\<lambda>_. resolve (404, refusal ''Product not found''))
                     else
                       and_then (await (conn rt) (query (reading (select_cart u p))))
                         (\<lambda>existingCartItems.
                       and_then
                         (case existingCartItems of
                            existing # _ \<Rightarrow>
                              (let newQuantity = c_quantity existing + parsedQuantity in
                               and_then (await (conn rt) (query (update_cart newQuantity u p)))
                                 (\<lambda>_. resolve
                                        (JObj [(''message'', JStr ''Cart updated successfully''),
                                               (''cartItem'', cartItem u p newQuantity)])))
                          | [] \<Rightarrow>
                              and_then
                                (await (conn rt) (query (writing (insert_cart u p parsedQuantity))))
                                (\<lambda>_. resolve
                                       (JObj [(''message'',
                                                 JStr ''Product added to cart successfully''),
                                              (''cartItem'', cartItem u p parsedQuantity)])))
                         (\<lambda>result.
                       and_then (await (conn rt) commit) (\<lambda>_. resolve (200, result)))))))
                  (\<lambda>err. and_then (await (conn rt) rollback)
                            (\<lambda>_. resolve (500, failure ''Failed to manage cart'' err)))
        | _ \<Rightarrow> resolve (400, cart_fields_required))"

text \<open>What a \<^verbatim>\<open>POST /api/cart\<close> request gets: both registrations, in source order.\<close>

definition post_api_cart ::
  "runtime \<Rightarrow> nat option \<Rightarrow> nat option \<Rightarrow> int option \<Rightarrow> database
     \<Rightarrow> response option \<times> database" where
  "post_api_cart rt user_id product_id quantity =
     dispatch [\<lambda>(u, p, q). post_api_cart_first rt u p q,
               \<lambda>(u, p, q). post_api_cart_second rt u p q]
       (user_id, product_id, quantity)"

text \<open>
  One row of the cart listing, as the driver returns it: the price, a decimal column,
  comes as its text.
\<close>

definition cart_item_json :: "cart_row \<times> product_row \<Rightarrow> json" where
  "cart_item_json cp =
     JObj [(''product_id'', JNum (of_nat (c_product_id (fst cp)))),
           (''quantity'', JNum (of_int (c_quantity (fst cp)))),
           (''name'', JStr (p_name (snd cp))),
           (''price'', JStr (toFixed2 (p_price (snd cp)))),
           (''image'', JStr (p_image (snd cp)))]"

text \<open>
  \<^verbatim>\<open>app.get("/api/cart/:userId", ...)\<close> (line 337). The router gives a path
  parameter that is not empty.
\<close>

definition get_api_cart :: "runtime \<Rightarrow> string \<Rightarrow> database \<Rightarrow> response option \<times> database" where
  "get_api_cart rt userId =
     answer
       (if userId = [] then resolve (400, refusal ''User ID is required'')
        else
          try_catch
            (and_then (await (conn rt) (query (reading (select_cart_join (sql_key rt) userId))))
               (\<lambda>results.
                  if results = []
                  then resolve (200, JObj [(''message'', JStr ''Cart is empty''),
                                           (''cartItems'', JArr []),
                                           (''totalItems'', JNum 0), (''totalValue'', JNum 0)])
                  else
                    let totalValue =
                          foldl (\<lambda>total item.
                                   total + p_price (snd item) * of_int (c_quantity (fst item)))
                            0 results
                    in resolve (200, JObj [(''cartItems'', JArr (map cart_item_json results)),
                                           (''totalItems'', JNum (of_nat (length results))),
                                           (''totalValue'', JStr (toFixed2 totalValue))])))
            (\<lambda>err. resolve (500, failure ''Error fetching cart'' err)))"

text \<open>\<^verbatim>\<open>app.post("/api/cart/update", ...)\<close> (line 397).\<close>

definition post_api_cart_update ::
  "runtime \<Rightarrow> nat option \<Rightarrow> nat option \<Rightarrow> int option \<Rightarrow> database
     \<Rightarrow> response option \<times> database" where
  "post_api_cart_update rt userId productId quantity =
     answer
       (case (userId, productId, quantity) of
          (Some u, Some p, Some q) \<Rightarrow>
            if u = 0 \<or> p = 0 then resolve (400, cart_fields_required)
            else
              try_catch
                (if q \<le> 0
                 then and_then (await (conn rt) (query (delete_cart u p)))
                        (\<lambda>result. resolve
                           (200, JObj [(''message'', JStr ''Item removed from cart successfully'')]))
                 else and_then (await (conn rt) (query (writing (upsert_cart u p q))))
                        (\<lambda>result. resolve
                           (200, JObj [(''message'', JStr ''Cart updated successfully'')])))
                (\<lambda>err. resolve (500, failure ''Database error'' err))
        | _ \<Rightarrow> resolve (400, cart_fields_required))"

text \<open>\<^verbatim>\<open>app.delete("/api/cart/remove", ...)\<close> (line 449).\<close>

definition delete_api_cart_remove ::
  "runtime \<Rightarrow> nat option \<Rightarrow> nat option \<Rightarrow> database \<Rightarrow> response option \<times> database" where
  "delete_api_cart_remove rt userId productId =
     answer
       (case (userId, productId) of
          (Some u, Some p) \<Rightarrow>
            if u = 0 \<or> p = 0 then resolve (400, refusal ''User ID and Product ID are required'')
            else
              try_catch
                (and_then (await (conn rt) (query (delete_cart u p)))
                   (\<lambda>affectedRows.
                      if affectedRows = 0 then resolve (404, refusal ''Item not found in cart'')
                      else resolve
                             (200, JObj [(''message'', JStr ''Item removed from cart successfully''),
                                         (''deletedRows'', JNum (of_nat affectedRows))])))
                (\<lambda>err. resolve (500, failure ''Database error'' err))
        | _ \<Rightarrow> resolve (400, refusal ''User ID and Product ID are required''))"

text \<open>\<^verbatim>\<open>app.put("/api/cart/update-quantity", ...)\<close> (line 747).\<close>

definition put_api_cart_update_quantity ::
  "runtime \<Rightarrow> nat option \<Rightarrow> nat option \<Rightarrow> int option \<Rightarrow> database
     \<Rightarrow> response option \<times> database" where
  "put_api_cart_update_quantity rt userId productId quantity =
     answer
       (case (userId, productId, quantity) of
          (Some u, Some p, Some q) \<Rightarrow>
            if u = 0 \<or> p = 0 then resolve (400, cart_fields_required)
            else
              let parsedQuantity = parseInt rt q in
              if parsedQuantity < 1
              then resolve (400, refusal ''Quantity must be a positive number'')
              else
                try_catch
                  (and_then (await (conn rt) (query (update_cart parsedQuantity u p)))
                     (\<lambda>affectedRows.
                        if affectedRows = 0 then resolve (404, refusal ''Cart item not found'')
                        else resolve
                               (200, JObj [(''message'',
                                              JStr ''Cart item quantity updated successfully''),
                                           (''updatedQuantity'', JNum (of_int parsedQuantity))])))
                  (\<lambda>err. resolve (500, failure ''Database error'' err))
        | _ \<Rightarrow> resolve (400, cart_fields_required))"

subsection \<open>Requests that run at the same time\<close>

text \<open>
  Node runs a handler up to an \<^verbatim>\<open>await\<close> and may run another request before it
  goes on. A \<^verbatim>\<open>POST /api/cart\<close> request that has passed the validation is
  \<open>Pending\<close>; its first step makes the lookup and leaves it \<open>Awaited\<close>, with what the
  await gave; its second step runs the rest of the \<^verbatim>\<open>try\<close> block, or the
  \<^verbatim>\<open>catch\<close>, and leaves it \<open>Answered\<close>. The handler holds no transaction, so each
  statement acts on the store at once.
\<close>

datatype request =
    Pending nat nat int
  | Awaited nat nat int "string + cart_row list"
  | Answered "response option"

definition request_step :: "runtime \<Rightarrow> request \<Rightarrow> database \<Rightarrow> request \<times> database" where
  "request_step rt t db =
     (case t of
        Pending u p q \<Rightarrow>
          (case cart_lookup rt u p \<lparr>store = db, began = None\<rparr> of
             (r, s) \<Rightarrow> (Awaited u p q r, store s))
      | Awaited u p q r \<Rightarrow>
          (case answer (try_catch (case r of Inl e \<Rightarrow> throw e
                                            | Inr rows \<Rightarrow> cart_merge rt u p q rows)
                          cart_failed) db of
             (a, db') \<Rightarrow> (Answered a, db'))
      | Answered a \<Rightarrow> (Answered a, db))"

text \<open>The requests \<open>ts\<close> run in the order \<open>sched\<close> says: each entry lets one request take a step.\<close>

fun run_requests :: "runtime \<Rightarrow> nat list \<Rightarrow> request list \<Rightarrow> database \<Rightarrow> request list \<times> database" where
  "run_requests rt [] ts db = (ts, db)"
| "run_requests rt (i # sched) ts db =
     (if i < length ts
      then (case request_step rt (ts ! i) db of (t, db') \<Rightarrow> run_requests rt sched (ts[i := t]) db')
      else run_requests rt sched ts db)"

section \<open>Checkout\<close>

text \<open>An element of \<^verbatim>\<open>items\<close> in the body of a checkout: \<^verbatim>\<open>{id, quantity, price}\<close>.\<close>

record item =
  item_id :: nat
  item_quantity :: int
  item_price :: rat

text \<open>
  \<^verbatim>\<open>app.post("/api/orders/place", ...)\<close> (line 528). Its \<^verbatim>\<open>catch\<close> (lines 576
  to 584) awaits a rollback before it answers.
\<close>

definition post_api_orders_place ::
  "runtime \<Rightarrow> nat option \<Rightarrow> item list option \<Rightarrow> database \<Rightarrow> response option \<times> database" where
  "post_api_orders_place rt userId items =
     answer
       (case (userId, items) of
          (Some u, Some its) \<Rightarrow>
            if u = 0 \<or> its = [] then resolve (400, refusal ''User ID and items are required'')
            else
              try_catch
                (and_then (await (conn rt) beginTransaction) (\<lambda>_.
                 let totalAmount =
                       foldl (\<lambda>total item. total + item_price item * of_int (item_quantity item))
                         0 its
                 in
                 and_then (await (conn rt) (query (insert_order u (now rt) totalAmount)))
                   (\<lambda>orderId.
                 let orderItemsValues =
                       map (\<lambda>item. \<lparr>oi_order_id = orderId, oi_product_id = item_id item,
                                    oi_quantity = item_quantity item,
                                    oi_price = item_price item\<rparr>) its
                 in
                 and_then (await (conn rt) (query (writing (insert_order_items orderItemsValues))))
                   (\<lambda>_.
                 and_then (await (conn rt) (query (writing (delete_cart_of_user u)))) (\<lambda>_.
                 and_then (await (conn rt) commit) (\<lambda>_.
                 resolve (200, JObj [(''message'', JStr ''Order placed successfully''),
                                     (''orderId'', JNum (of_nat orderId))])))))))
                (\<lambda>err. and_then (await (conn rt) rollback)
                          (\<lambda>_. resolve (500, failure ''Failed to place order'' err)))
        | _ \<Rightarrow> resolve (400, refusal ''User ID and items are required''))"

text \<open>
  \<^verbatim>\<open>app.post("/api/single-order", ...)\<close> (line 966). The transaction begins in
  the outer \<^verbatim>\<open>try\<close>; the inner \<^verbatim>\<open>try\<close> (line 983) throws "Product not found"
  itself, and its \<^verbatim>\<open>catch\<close> rolls back and throws the error on to the outer
  \<^verbatim>\<open>catch\<close>, which answers 500 with the message.
\<close>

definition post_api_single_order ::
  "runtime \<Rightarrow> nat option \<Rightarrow> nat option \<Rightarrow> int option \<Rightarrow> database
     \<Rightarrow> response option \<times> database" where
  "post_api_single_order rt userId productId quantity =
     answer
       (case (userId, productId, quantity) of
          (Some u, Some p, Some q) \<Rightarrow>
            if u = 0 \<or> p = 0 \<or> q = 0
            then resolve (400, failure ''Invalid order data''
                                 ''User ID, Product ID, and Quantity are required'')
            else
              try_catch
                (and_then (await (conn rt) beginTransaction) (\<lambda>_.
                 try_catch
                   (and_then (await (conn rt) (query (reading (select_product p))))
                      (\<lambda>productResults.
                         case productResults of
                           [] \<Rightarrow> throw ''Product not found''
                         | product # _ \<Rightarrow>
                             (let totalAmount = p_price product * of_int q in
                              and_then
                                (await (conn rt) (query (insert_order u (now rt) totalAmount)))
                                (\<lambda>orderId.
                              and_then
                                (await (conn rt)
                                   (query (writing (insert_order_items
                                      [\<lparr>oi_order_id = orderId, oi_product_id = p,
                                        oi_quantity = q, oi_price = p_price product\<rparr>]))))
                                (\<lambda>_.
                              and_then (await (conn rt) commit) (\<lambda>_.
                              resolve
                                (201, JObj [(''id'', JStr (''ORD-'' @ show_nat orderId)),
                                            (''userId'', JNum (of_nat u)),
                                            (''productId'', JNum (of_nat p)),
                                            (''quantity'', JNum (of_int q)),
                                            (''totalAmount'', JNum (round2 totalAmount)),
                                            (''orderDate'', JStr (toISOString (wall rt))),
                                            (''productDetails'',
                                               JObj [(''name'', JStr (p_name product)),
                                                     (''image'', JStr (p_image product))])])))))))
                   (\<lambda>error. and_then (await (conn rt) rollback) (\<lambda>_. throw error))))
                (\<lambda>err. resolve (500, failure ''Failed to create order'' err))
        | _ \<Rightarrow> resolve (400, failure ''Invalid order data''
                                 ''User ID, Product ID, and Quantity are required''))"

section \<open>Order queries\<close>

definition order_item_json :: "order_item_row \<times> product_row \<Rightarrow> json" where
  "order_item_json item =
     JObj [(''product_id'', JNum (of_nat (oi_product_id (fst item)))),
           (''name'', JStr (p_name (snd item))),
           (''price'', JNum (oi_price (fst item))),
           (''quantity'', JNum (of_int (oi_quantity (fst item)))),
           (''image'', JStr (p_image (snd item)))]"

text \<open>The callback of \<^verbatim>\<open>itemResults.reduce\<close>: the object \<open>acc\<close> is keyed by order id.\<close>

definition group_item ::
  "(nat \<rightharpoonup> json list) \<Rightarrow> order_item_row \<times> product_row \<Rightarrow> (nat \<rightharpoonup> json list)" where
  "group_item acc item =
     (let acc1 = (case acc (oi_order_id (fst item)) of
                    None \<Rightarrow> acc(oi_order_id (fst item) \<mapsto> [])
                  | Some _ \<Rightarrow> acc)
      in acc1(oi_order_id (fst item) \<mapsto>
                (case acc1 (oi_order_id (fst item)) of None \<Rightarrow> [] | Some xs \<Rightarrow> xs)
                @ [order_item_json item]))"

definition order_json :: "runtime \<Rightarrow> order_row \<Rightarrow> json list \<Rightarrow> json" where
  "order_json rt order items =
     JObj [(''id'', JStr (''ORD-'' @ show_nat (o_id order))),
           (''date'', JStr (iso_date (utc_fields rt (o_order_date order)))),
           (''total'', JNum (o_total_amount order)),
           (''items'', JArr items)]"

text \<open>
  \<^verbatim>\<open>app.get("/api/orders", ...)\<close> (line 590; the registration at line 875 has the
  same \<^verbatim>\<open>try\<close> block and never runs).
\<close>

definition get_api_orders ::
  "runtime \<Rightarrow> string option \<Rightarrow> database \<Rightarrow> response option \<times> database" where
  "get_api_orders rt userId =
     answer
       (case userId of
          None \<Rightarrow> resolve (400, refusal ''User ID is required'')
        | Some u \<Rightarrow>
            if u = [] then resolve (400, refusal ''User ID is required'')
            else
              try_catch
                (and_then (await (conn rt) (query (reading (select_orders (sql_key rt) u))))
                   (\<lambda>orderResults.
                      if orderResults = [] then resolve (200, JArr [])
                      else
                        let orderIds = map o_id orderResults in
                        and_then
                          (await (conn rt)
                             (query (reading
                                (select_items_join (\<lambda>oi. oi_order_id oi \<in> set orderIds)))))
                          (\<lambda>itemResults.
                             let orderItemsMap = foldl group_item Map.empty itemResults;
                                 processedOrders =
                                   map (\<lambda>order.
                                          order_json rt order
                                            (case orderItemsMap (o_id order) of
                                               None \<Rightarrow> [] | Some xs \<Rightarrow> xs))
                                       orderResults
                             in resolve (200, JArr processedOrders))))
                (\<lambda>err. resolve (500, failure ''Failed to retrieve orders'' err)))"

text \<open>
  \<^verbatim>\<open>app.get("/api/orders/:orderId", ...)\<close> (line 674; the registration at line 799
  never runs).
\<close>

definition get_api_orders_orderId ::
  "runtime \<Rightarrow> string option \<Rightarrow> string \<Rightarrow> database \<Rightarrow> response option \<times> database" where
  "get_api_orders_orderId rt userId orderId =
     answer
       (case userId of
          None \<Rightarrow> resolve (400, refusal ''User ID and Order ID are required'')
        | Some u \<Rightarrow>
            if u = [] \<or> orderId = []
            then resolve (400, refusal ''User ID and Order ID are required'')
            else
              let numericOrderId = replace_first ''ORD-'' '''' orderId in
              try_catch
                (and_then
                   (await (conn rt)
                      (query (reading
                         (\<lambda>db. filter (\<lambda>r. sql_key rt numericOrderId = Some (o_id r) \<and>
                                           sql_key rt u = Some (o_user_id r)) (orders db)))))
                   (\<lambda>orderResults.
                      case orderResults of
                        [] \<Rightarrow> resolve (404, refusal ''Order not found'')
                      | order # _ \<Rightarrow>
                          and_then
                            (await (conn rt)
                               (query (reading
                                  (select_items_join
                                     (\<lambda>oi. sql_key rt numericOrderId = Some (oi_order_id oi))))))
                            (\<lambda>itemResults.
                               resolve (200, order_json rt order (map order_item_json itemResults)))))
                (\<lambda>err. resolve (500, failure ''Failed to retrieve order details'' err)))"

section \<open>What the claims speak of\<close>

text \<open>The items of a cart listing: the \<^verbatim>\<open>cartItems\<close> of the response, if it has any.\<close>

definition listed_items :: "response option \<Rightarrow> json list" where
  "listed_items r =
     (case r of
        None \<Rightarrow> []
      | Some x \<Rightarrow> (case json_get ''cartItems'' (snd x) of Some (JArr xs) \<Rightarrow> xs | _ \<Rightarrow> []))"

text \<open>
  The orders a request created, and what it is for an order to be priced from the
  catalog: its total is the sum of price times quantity over its lines, and each line
  has the price the catalog gives its product.
\<close>

definition created_orders :: "database \<Rightarrow> database \<Rightarrow> order_row list" where
  "created_orders db db' = filter (\<lambda>r. r \<notin> set (orders db)) (orders db')"

definition lines_of :: "database \<Rightarrow> order_row \<Rightarrow> order_item_row list" where
  "lines_of db r = filter (\<lambda>oi. oi_order_id oi = o_id r) (order_items db)"

definition priced_from_catalog :: "database \<Rightarrow> order_row \<Rightarrow> bool" where
  "priced_from_catalog db r =
     (o_total_amount r = sum_list (map (\<lambda>oi. oi_price oi * of_int (oi_quantity oi)) (lines_of db r))
      \<and> list_all (\<lambda>oi. map p_price (select_product (oi_product_id oi) db) = [oi_price oi])
           (lines_of db r))"

section \<open>A small shop to run the handlers on\<close>

definition catalog :: "product_row list" where
  "catalog = [\<lparr>p_id = 1, p_name = ''Keyboard'', p_price = 10, p_image = ''kb.png''\<rparr>,
              \<lparr>p_id = 2, p_name = ''Mouse'', p_price = 5, p_image = ''mouse.png''\<rparr>]"

definition empty_shop :: database where
  "empty_shop = \<lparr>products = catalog, cart = [], orders = [], order_items = [], next_order_id = 1\<rparr>"

definition busy_shop :: database where
  "busy_shop = empty_shop\<lparr>cart := [\<lparr>c_user_id = 7, c_product_id = 1, c_quantity = 2\<rparr>,
                                     \<lparr>c_user_id = 7, c_product_id = 2, c_quantity = 1\<rparr>,
                                     \<lparr>c_user_id = 8, c_product_id = 1, c_quantity = 5\<rparr>]\<rparr>"

definition noon :: timestamp where
  "noon = (2024, 5, 17, 12, 0, 0, 0)"

definition two_items :: "item list" where
  "two_items = [\<lparr>item_id = 1, item_quantity = 2, item_price = 10\<rparr>,
                \<lparr>item_id = 2, item_quantity = 1, item_price = 5\<rparr>]"

text \<open>
  A shop with three orders on record. The third was bought at a price of 12, before the
  catalog price of product 1 went to 10.
\<close>

definition order_shop :: database where
  "order_shop =
     \<lparr>products = catalog, cart = [],
      orders = [\<lparr>o_id = 1, o_user_id = 7, o_order_date = noon, o_total_amount = 25\<rparr>,
                \<lparr>o_id = 2, o_user_id = 8, o_order_date = (2024, 5, 18, 9, 30, 0, 0),
                  o_total_amount = 5\<rparr>,
                \<lparr>o_id = 3, o_user_id = 7, o_order_date = (2024, 6, 1, 8, 15, 0, 0),
                  o_total_amount = 12\<rparr>],
      order_items = [\<lparr>oi_order_id = 1, oi_product_id = 1, oi_quantity = 2, oi_price = 10\<rparr>,
                     \<lparr>oi_order_id = 1, oi_product_id = 2, oi_quantity = 1, oi_price = 5\<rparr>,
                     \<lparr>oi_order_id = 2, oi_product_id = 2, oi_quantity = 1, oi_price = 5\<rparr>,
                     \<lparr>oi_order_id = 3, oi_product_id = 1, oi_quantity = 1, oi_price = 12\<rparr>],
      next_order_id = 4\<rparr>"

text \<open>A shop with one order, for a product the catalog does not have.\<close>

definition stray_shop :: database where
  "stray_shop =
     \<lparr>products = catalog, cart = [],
      orders = [\<lparr>o_id = 1, o_user_id = 7, o_order_date = noon, o_total_amount = 3\<rparr>],
      order_items = [\<lparr>oi_order_id = 1, oi_product_id = 99, oi_quantity = 1, oi_price = 3\<rparr>],
      next_order_id = 2\<rparr>"

text \<open>
  A runtime to run examples on. Its connection is the one the file obtains, with an error
  message for the driver to throw. Its store reads a string of decimal digits as the
  number it writes; the examples compare no other string with a key. Its server keeps
  UTC.
\<close>

definition then_message :: string where
  "then_message = ''You have tried to call .then(), .catch(), or invoked await on the result of query that is not a promise''"

definition digit_val :: "char \<Rightarrow> nat option" where
  "digit_val = map_of [(CHR ''0'', 0), (CHR ''1'', 1), (CHR ''2'', 2), (CHR ''3'', 3),
                       (CHR ''4'', 4), (CHR ''5'', 5), (CHR ''6'', 6), (CHR ''7'', 7),
                       (CHR ''8'', 8), (CHR ''9'', 9)]"

fun digits_acc :: "nat \<Rightarrow> string \<Rightarrow> nat option" where
  "digits_acc a [] = Some a"
| "digits_acc a (c # cs) =
     (case digit_val c of None \<Rightarrow> None | Some d \<Rightarrow> digits_acc (10 * a + d) cs)"

definition digits_key :: "string \<Rightarrow> nat option" where
  "digits_key s = (if s = [] then None else digits_acc 0 s)"

definition server :: runtime where
  "server = \<lparr>conn = getConnectionWithRetry then_message, sql_key = digits_key,
             parseInt = (\<lambda>n. n), utc_fields = (\<lambda>t. t), now = noon, wall = noon\<rparr>"

section \<open>Running a handler\<close>

lemma conn_as_written [simp]: "conn (as_written m rt) = Callback m"
  by (simp add: as_written_def getConnectionWithRetry_def)

lemma conn_promised [simp]: "conn (promised rt) = Promise"
  by (simp add: promised_def)

lemma runtime_as_written [simp]:
  "sql_key (as_written m rt) = sql_key rt" "parseInt (as_written m rt) = parseInt rt"
  "utc_fields (as_written m rt) = utc_fields rt" "now (as_written m rt) = now rt"
  "wall (as_written m rt) = wall rt"
  by (simp_all add: as_written_def)

lemma runtime_promised [simp]:
  "sql_key (promised rt) = sql_key rt" "parseInt (promised rt) = parseInt rt"
  "utc_fields (promised rt) = utc_fields rt" "now (promised rt) = now rt"
  "wall (promised rt) = wall rt"
  by (simp_all add: promised_def)

lemma server_as_written: "as_written then_message server = server"
  by (simp add: as_written_def server_def)

text \<open>
  On the callback interface the first awaited call of a handler sends its statement and
  throws; on the promise interface it gives the statement's result.
\<close>

lemma await_Callback: "await (Callback m) call s = (Inl m, snd (call s))"
  by (simp add: await_def)

lemma await_Promise: "await Promise call s = (Inr (fst (call s)), snd (call s))"
  by (simp add: await_def)

lemmas async_defs =
  answer_def try_catch_def and_then_def resolve_def throw_def await_Callback await_Promise
  query_def reading_def writing_def beginTransaction_def commit_def rollback_def

text \<open>What each handler does as the file is written, for a request that passes its validation.\<close>

lemma post_api_cart_first_as_written:
  "u \<noteq> 0 \<Longrightarrow> p \<noteq> 0 \<Longrightarrow> q \<noteq> 0 \<Longrightarrow>
   post_api_cart_first (as_written m rt) (Some u) (Some p) (Some q) db =
     (Some (500, failure ''Failed to manage cart'' m), db)"
  by (simp add: post_api_cart_first_def cart_lookup_def cart_failed_def async_defs)

lemma post_api_cart_as_written:
  "u \<noteq> 0 \<Longrightarrow> p \<noteq> 0 \<Longrightarrow> q \<noteq> 0 \<Longrightarrow>
   post_api_cart (as_written m rt) (Some u) (Some p) (Some q) db =
     (Some (500, failure ''Failed to manage cart'' m), db)"
  by (simp add: post_api_cart_def post_api_cart_first_as_written)

lemma post_api_cart_update_as_written:
  "u \<noteq> 0 \<Longrightarrow> p \<noteq> 0 \<Longrightarrow>
   post_api_cart_update (as_written m rt) (Some u) (Some p) (Some q) db =
     (Some (500, failure ''Database error'' m),
      if q \<le> 0 then snd (delete_cart u p db) else upsert_cart u p q db)"
  by (simp add: post_api_cart_update_def async_defs)

lemma delete_api_cart_remove_as_written:
  "u \<noteq> 0 \<Longrightarrow> p \<noteq> 0 \<Longrightarrow>
   delete_api_cart_remove (as_written m rt) (Some u) (Some p) db =
     (Some (500, failure ''Database error'' m), snd (delete_cart u p db))"
  by (simp add: delete_api_cart_remove_def async_defs)

lemma put_api_cart_update_quantity_as_written:
  "u \<noteq> 0 \<Longrightarrow> p \<noteq> 0 \<Longrightarrow> 1 \<le> parseInt rt q \<Longrightarrow>
   put_api_cart_update_quantity (as_written m rt) (Some u) (Some p) (Some q) db =
     (Some (500, failure ''Database error'' m), snd (update_cart (parseInt rt q) u p db))"
  by (simp add: put_api_cart_update_quantity_def async_defs Let_def)

lemma get_api_cart_as_written:
  "s \<noteq> [] \<Longrightarrow>
   get_api_cart (as_written m rt) s db = (Some (500, failure ''Error fetching cart'' m), db)"
  by (simp add: get_api_cart_def async_defs)

lemma post_api_orders_place_as_written:
  "u \<noteq> 0 \<Longrightarrow> its \<noteq> [] \<Longrightarrow>
   post_api_orders_place (as_written m rt) (Some u) (Some its) db = (None, db)"
  by (simp add: post_api_orders_place_def async_defs)

lemma post_api_single_order_as_written:
  "u \<noteq> 0 \<Longrightarrow> p \<noteq> 0 \<Longrightarrow> q \<noteq> 0 \<Longrightarrow>
   post_api_single_order (as_written m rt) (Some u) (Some p) (Some q) db =
     (Some (500, failure ''Failed to create order'' m), db)"
  by (simp add: post_api_single_order_def async_defs)

lemma get_api_orders_as_written:
  "u \<noteq> [] \<Longrightarrow>
   get_api_orders (as_written m rt) (Some u) db =
     (Some (500, failure ''Failed to retrieve orders'' m), db)"
  by (simp add: get_api_orders_def async_defs)

lemma get_api_orders_orderId_as_written:
  "u \<noteq> [] \<Longrightarrow> orderId \<noteq> [] \<Longrightarrow>
   get_api_orders_orderId (as_written m rt) (Some u) orderId db =
     (Some (500, failure ''Failed to retrieve order details'' m), db)"
  by (simp add: get_api_orders_orderId_def async_defs Let_def)

section \<open>Checkout\<close>





text \<open>
  On a connection of the promise interface the two paths differ:
  \<^verbatim>\<open>POST /api/orders/place\<close> stores the prices of the request body, and
  \<^verbatim>\<open>POST /api/single-order\<close> reads the price from the catalog.
\<close>

lemma post_api_orders_place_promised:
  "u \<noteq> 0 \<Longrightarrow> its \<noteq> [] \<Longrightarrow>
   post_api_orders_place (promised rt) (Some u) (Some its) db =
     (Some (200, JObj [(''message'', JStr ''Order placed successfully''),
                       (''orderId'', JNum (of_nat (next_order_id db)))]),
      db\<lparr>orders := orders db @
                     [\<lparr>o_id = next_order_id db, o_user_id = u, o_order_date = now rt,
                       o_total_amount =
                         foldl (\<lambda>total item. total + item_price item * of_int (item_quantity item))
                           0 its\<rparr>],
         next_order_id := Suc (next_order_id db),
         order_items := order_items db @
                          map (\<lambda>item. \<lparr>oi_order_id = next_order_id db,
                                       oi_product_id = item_id item,
                                       oi_quantity = item_quantity item,
                                       oi_price = item_price item\<rparr>) its,
         cart := filter (\<lambda>r. c_user_id r \<noteq> u) (cart db)\<rparr>)"
  by (simp add: post_api_orders_place_def async_defs Let_def insert_order_def
        insert_order_items_def delete_cart_of_user_def)

lemma post_api_orders_place_promised_client_price:
  "created_orders busy_shop
     (snd (post_api_orders_place (promised rt) (Some 7)
             (Some [\<lparr>item_id = 1, item_quantity = 1, item_price = 1\<rparr>]) busy_shop)) =
     [\<lparr>o_id = 1, o_user_id = 7, o_order_date = now rt, o_total_amount = 1\<rparr>]
   \<and> map p_price (select_product 1 busy_shop) = [10]
   \<and> \<not> list_all
         (priced_from_catalog
            (snd (post_api_orders_place (promised rt) (Some 7)
                    (Some [\<lparr>item_id = 1, item_quantity = 1, item_price = 1\<rparr>]) busy_shop)))
         (created_orders busy_shop
            (snd (post_api_orders_place (promised rt) (Some 7)
                    (Some [\<lparr>item_id = 1, item_quantity = 1, item_price = 1\<rparr>]) busy_shop)))"
  by (simp add: post_api_orders_place_promised created_orders_def busy_shop_def empty_shop_def
        catalog_def select_product_def priced_from_catalog_def lines_of_def)

lemma post_api_single_order_promised_catalog_price:
  "created_orders busy_shop
     (snd (post_api_single_order (promised rt) (Some 7) (Some 1) (Some 3) busy_shop)) =
     [\<lparr>o_id = 1, o_user_id = 7, o_order_date = now rt, o_total_amount = 30\<rparr>]
   \<and> list_all
       (priced_from_catalog
          (snd (post_api_single_order (promised rt) (Some 7) (Some 1) (Some 3) busy_shop)))
       (created_orders busy_shop
          (snd (post_api_single_order (promised rt) (Some 7) (Some 1) (Some 3) busy_shop)))"
  by (simp add: post_api_single_order_def async_defs Let_def insert_order_def
        insert_order_items_def created_orders_def busy_shop_def empty_shop_def catalog_def
        select_product_def priced_from_catalog_def lines_of_def)

text \<open>
  C2. \<^verbatim>\<open>POST /api/orders/place\<close> for user 7 with the two items of the example of
  the specification, on a shop where user 7 has two cart rows: as the file is written
  the request gets no answer and the store is left as it was. No order row and no item
  row is inserted, and the cart of user 7 still has its two rows. The await of
  \<^verbatim>\<open>beginTransaction\<close> throws, and the await of \<^verbatim>\<open>rollback\<close> in the
  \<^verbatim>\<open>catch\<close> throws again, before \<^verbatim>\<open>res.status(500)\<close> is reached.
\<close>

theorem placeOrder_as_written:
  "post_api_orders_place (as_written m rt) (Some 7) (Some two_items) busy_shop = (None, busy_shop)
   \<and> orders busy_shop = [] \<and> order_items busy_shop = []
   \<and> length (filter (\<lambda>r. c_user_id r = 7) (cart busy_shop)) = 2"
  by (simp add: post_api_orders_place_as_written two_items_def busy_shop_def empty_shop_def)

text \<open>
  What the handler is written to do shows on a connection of the promise interface: one
  order of total 25, two lines, the cart of user 7 emptied and the cart of user 8 kept.
\<close>

lemma placeOrder_promised:
  "post_api_orders_place (promised rt) (Some 7) (Some two_items) busy_shop =
     (Some (200, JObj [(''message'', JStr ''Order placed successfully''),
                       (''orderId'', JNum 1)]),
      \<lparr>products = catalog,
       cart = [\<lparr>c_user_id = 8, c_product_id = 1, c_quantity = 5\<rparr>],
       orders = [\<lparr>o_id = 1, o_user_id = 7, o_order_date = now rt, o_total_amount = 25\<rparr>],
       order_items = [\<lparr>oi_order_id = 1, oi_product_id = 1, oi_quantity = 2, oi_price = 10\<rparr>,
                      \<lparr>oi_order_id = 1, oi_product_id = 2, oi_quantity = 1, oi_price = 5\<rparr>],
       next_order_id = 2\<rparr>)"
  by (simp add: post_api_orders_place_promised two_items_def busy_shop_def empty_shop_def)

text \<open>
  C3. \<^verbatim>\<open>POST /api/single-order\<close> for product 99, which the catalog of the shop does
  not have. As the file is written the answer is 500 with the driver's message as
  details, the same answer as for product 1, which the catalog has: the await of
  \<^verbatim>\<open>beginTransaction\<close> throws before the product is looked up. On a connection of
  the promise interface the product is looked up and the answer is 500 with details
  "Product not found". In neither case is the answer 404; in both the store is unchanged.
\<close>

theorem placeSingleOrder_unknown_product:
  "select_product 99 busy_shop = []
   \<and> post_api_single_order (as_written m rt) (Some 7) (Some 99) (Some 1) busy_shop =
       (Some (500, failure ''Failed to create order'' m), busy_shop)
   \<and> post_api_single_order (as_written m rt) (Some 7) (Some 1) (Some 1) busy_shop =
       (Some (500, failure ''Failed to create order'' m), busy_shop)
   \<and> post_api_single_order (promised rt) (Some 7) (Some 99) (Some 1) busy_shop =
       (Some (500, failure ''Failed to create order'' ''Product not found''), busy_shop)"
proof -
  have missing: "select_product 99 busy_shop = []"
    by (simp add: select_product_def busy_shop_def empty_shop_def catalog_def)
  have "post_api_single_order (promised rt) (Some 7) (Some 99) (Some 1) busy_shop =
       (Some (500, failure ''Failed to create order'' ''Product not found''), busy_shop)"
    by (simp add: post_api_single_order_def async_defs missing)
  with missing show ?thesis
    by (simp add: post_api_single_order_as_written)
qed

section \<open>The cart store\<close>

lemma filter_map_key:
  "filter (\<lambda>r. c_user_id r = u \<and> c_product_id r = p)
     (map (\<lambda>r. if c_user_id r = u' \<and> c_product_id r = p' then r\<lparr>c_quantity := q\<rparr> else r) xs)
   = map (\<lambda>r. if c_user_id r = u' \<and> c_product_id r = p' then r\<lparr>c_quantity := q\<rparr> else r)
       (filter (\<lambda>r. c_user_id r = u \<and> c_product_id r = p) xs)"
  by (induction xs) auto

lemma select_cart_update:
  "select_cart u p (snd (update_cart q u p db)) =
     map (\<lambda>r. r\<lparr>c_quantity := q\<rparr>) (select_cart u p db)"
  unfolding select_cart_def update_cart_def by (simp add: filter_map_key)

lemma select_cart_insert:
  "select_cart u p (insert_cart u p q db) =
     select_cart u p db @ [\<lparr>c_user_id = u, c_product_id = p, c_quantity = q\<rparr>]"
  by (simp add: select_cart_def insert_cart_def)

lemma select_cart_delete: "select_cart u p (snd (delete_cart u p db)) = []"
  by (simp add: select_cart_def delete_cart_def)

lemma map_unmatched:
  "filter P xs = [] \<Longrightarrow> map (\<lambda>r. if P r then f r else r) xs = xs"
  by (induction xs) (auto split: if_splits)

lemma update_cart_unmatched:
  "select_cart u p db = [] \<Longrightarrow> update_cart q u p db = (0, db)"
  by (simp add: select_cart_def update_cart_def map_unmatched)

text \<open>
  What the first registration of \<^verbatim>\<open>POST /api/cart\<close> does on a connection of the
  promise interface: it inserts the row, or adds to the quantity of the row it found.
\<close>

lemma post_api_cart_promised_fresh:
  "u \<noteq> 0 \<Longrightarrow> p \<noteq> 0 \<Longrightarrow> q \<noteq> 0 \<Longrightarrow> select_cart u p db = [] \<Longrightarrow>
   post_api_cart (promised rt) (Some u) (Some p) (Some q) db =
     (Some (200, JObj [(''message'', JStr ''Product added to cart successfully''),
                       (''cartItem'', cartItem u p q)]),
      insert_cart u p q db)"
  by (simp add: post_api_cart_def post_api_cart_first_def cart_lookup_def cart_merge_def
        async_defs)

lemma post_api_cart_promised_merge:
  "u \<noteq> 0 \<Longrightarrow> p \<noteq> 0 \<Longrightarrow> q \<noteq> 0 \<Longrightarrow> select_cart u p db = r # rs \<Longrightarrow>
   post_api_cart (promised rt) (Some u) (Some p) (Some q) db =
     (Some (200, JObj [(''message'', JStr ''Cart updated successfully''),
                       (''cartItem'', cartItem u p (c_quantity r + q))]),
      snd (update_cart (c_quantity r + q) u p db))"
  by (simp add: post_api_cart_def post_api_cart_first_def cart_lookup_def cart_merge_def
        async_defs Let_def)

text \<open>
  The second registration, which no request reaches, refuses a quantity below 1 before
  it asks for a connection, and on the promise interface it answers 404 for a product
  the catalog does not have.
\<close>

lemma post_api_cart_second_checks:
  "post_api_cart_second server (Some 7) (Some 1) (Some (- 2)) empty_shop =
     (Some (400, refusal ''Quantity must be a positive number''), empty_shop)
   \<and> post_api_cart_second (promised server) (Some 7) (Some 99) (Some 1) empty_shop =
     (Some (404, refusal ''Product not found''), empty_shop)"
  by (simp add: post_api_cart_second_def async_defs server_def promised_def select_product_def
        empty_shop_def catalog_def)

text \<open>
  C4. \<^verbatim>\<open>POST /api/cart\<close> with quantity -2, and with product 99, which the catalog
  does not have, on a shop with an empty cart. The first registration runs. As the file
  is written the await of its \<^verbatim>\<open>SELECT\<close> throws and both requests are answered 500,
  not 400 and not 404; no row is written. On a connection of the promise interface both
  are answered 200 and the rows \<open>(7, 1, -2)\<close> and \<open>(7, 99, 1)\<close> are written: the
  registration tests neither the sign of the quantity nor the catalog.
\<close>

theorem post_api_cart_unchecked:
  "post_api_cart (as_written m rt) (Some 7) (Some 1) (Some (- 2)) empty_shop =
     (Some (500, failure ''Failed to manage cart'' m), empty_shop)
   \<and> select_product 99 empty_shop = []
   \<and> post_api_cart (as_written m rt) (Some 7) (Some 99) (Some 1) empty_shop =
     (Some (500, failure ''Failed to manage cart'' m), empty_shop)
   \<and> post_api_cart (promised rt) (Some 7) (Some 1) (Some (- 2)) empty_shop =
     (Some (200, JObj [(''message'', JStr ''Product added to cart successfully''),
                       (''cartItem'', cartItem 7 1 (- 2))]),
      empty_shop\<lparr>cart := [\<lparr>c_user_id = 7, c_product_id = 1, c_quantity = - 2\<rparr>]\<rparr>)
   \<and> post_api_cart (promised rt) (Some 7) (Some 99) (Some 1) empty_shop =
     (Some (200, JObj [(''message'', JStr ''Product added to cart successfully''),
                       (''cartItem'', cartItem 7 99 1)]),
      empty_shop\<lparr>cart := [\<lparr>c_user_id = 7, c_product_id = 99, c_quantity = 1\<rparr>]\<rparr>)"
proof -
  have none: "select_cart u p empty_shop = []" for u p
    by (simp add: select_cart_def empty_shop_def)
  have row: "insert_cart u p q empty_shop =
      empty_shop\<lparr>cart := [\<lparr>c_user_id = u, c_product_id = p, c_quantity = q\<rparr>]\<rparr>" for u p q
    by (simp add: insert_cart_def empty_shop_def)
  have "select_product 99 empty_shop = []"
    by (simp add: select_product_def empty_shop_def catalog_def)
  then show ?thesis
    by (simp add: post_api_cart_as_written post_api_cart_promised_fresh none row)
qed

text \<open>What the two handlers that set a quantity do to the store, on either interface.\<close>

lemma post_api_cart_update_store:
  "u \<noteq> 0 \<Longrightarrow> p \<noteq> 0 \<Longrightarrow>
   snd (post_api_cart_update rt (Some u) (Some p) (Some q) db) =
     (if q \<le> 0 then snd (delete_cart u p db) else upsert_cart u p q db)"
  by (cases "conn rt") (simp_all add: post_api_cart_update_def async_defs)

lemma delete_api_cart_remove_store:
  "u \<noteq> 0 \<Longrightarrow> p \<noteq> 0 \<Longrightarrow>
   snd (delete_api_cart_remove rt (Some u) (Some p) db) = snd (delete_cart u p db)"
  by (cases "conn rt") (simp_all add: delete_api_cart_remove_def async_defs)

lemma put_api_cart_update_quantity_store:
  "u \<noteq> 0 \<Longrightarrow> p \<noteq> 0 \<Longrightarrow> select_cart u p db = [] \<Longrightarrow>
   snd (put_api_cart_update_quantity rt (Some u) (Some p) (Some q) db) = db"
  by (cases "conn rt")
     (simp_all add: put_api_cart_update_quantity_def async_defs Let_def update_cart_unmatched)

text \<open>
  C5, the claim as the specification has it, refuted: \<^verbatim>\<open>POST /api/cart/update\<close> for
  user 7, product 2 and quantity 3 on a shop with an empty cart. The answer is 500, not
  a not-found condition, and the row \<open>(7, 2, 3)\<close> is there afterwards: the upsert was
  sent before the await threw.
\<close>

theorem setQuantity_creates_counterexample:
  "select_cart 7 2 empty_shop = []
   \<and> post_api_cart_update server (Some 7) (Some 2) (Some 3) empty_shop =
       (Some (500, failure ''Database error'' then_message),
        empty_shop\<lparr>cart := [\<lparr>c_user_id = 7, c_product_id = 2, c_quantity = 3\<rparr>]\<rparr>)
   \<and> select_cart 7 2
       (snd (post_api_cart_update server (Some 7) (Some 2) (Some 3) empty_shop)) =
       [\<lparr>c_user_id = 7, c_product_id = 2, c_quantity = 3\<rparr>]"
proof -
  have none: "select_cart 7 2 empty_shop = []"
    by (simp add: select_cart_def empty_shop_def)
  have "post_api_cart_update (as_written then_message server) (Some 7) (Some 2) (Some 3)
      empty_shop =
       (Some (500, failure ''Database error'' then_message),
        empty_shop\<lparr>cart := [\<lparr>c_user_id = 7, c_product_id = 2, c_quantity = 3\<rparr>]\<rparr>)"
    by (simp add: post_api_cart_update_as_written upsert_cart_def none)
       (simp add: insert_cart_def empty_shop_def)
  then have run: "post_api_cart_update server (Some 7) (Some 2) (Some 3) empty_shop =
       (Some (500, failure ''Database error'' then_message),
        empty_shop\<lparr>cart := [\<lparr>c_user_id = 7, c_product_id = 2, c_quantity = 3\<rparr>]\<rparr>)"
    by (simp only: server_as_written)
  have "select_cart 7 2
      (empty_shop\<lparr>cart := [\<lparr>c_user_id = 7, c_product_id = 2, c_quantity = 3\<rparr>]\<rparr>) =
      [\<lparr>c_user_id = 7, c_product_id = 2, c_quantity = 3\<rparr>]"
    by (simp add: select_cart_def)
  with none run show ?thesis
    by simp
qed

text \<open>
  C5, amended. For a request with a positive quantity where no row exists for the pair:
  \<^verbatim>\<open>POST /api/cart/update\<close> sends an upsert, so afterwards the store is the old one
  with the row inserted, and the row is the only one of the pair;
  \<^verbatim>\<open>PUT /api/cart/update-quantity\<close> sends an \<^verbatim>\<open>UPDATE\<close>, which matches no row
  and leaves the store as it was. This holds on either interface of the driver.
\<close>

theorem setQuantity_missing_row:
  assumes "u \<noteq> 0" and "p \<noteq> 0" and "0 < q" and "select_cart u p db = []"
  shows "snd (post_api_cart_update rt (Some u) (Some p) (Some q) db) = insert_cart u p q db
         \<and> select_cart u p (snd (post_api_cart_update rt (Some u) (Some p) (Some q) db)) =
             [\<lparr>c_user_id = u, c_product_id = p, c_quantity = q\<rparr>]
         \<and> snd (put_api_cart_update_quantity rt (Some u) (Some p) (Some q) db) = db
         \<and> select_cart u p
             (snd (put_api_cart_update_quantity rt (Some u) (Some p) (Some q) db)) = []"
  using assms
  by (simp add: post_api_cart_update_store put_api_cart_update_quantity_store upsert_cart_def
      select_cart_insert)

theorem setQuantity_missing_row_witness:
  "select_cart 7 2 empty_shop = []
   \<and> snd (post_api_cart_update server (Some 7) (Some 2) (Some 3) empty_shop) =
       insert_cart 7 2 3 empty_shop
   \<and> select_cart 7 2 (snd (post_api_cart_update server (Some 7) (Some 2) (Some 3) empty_shop)) =
       [\<lparr>c_user_id = 7, c_product_id = 2, c_quantity = 3\<rparr>]
   \<and> snd (put_api_cart_update_quantity server (Some 7) (Some 2) (Some 3) empty_shop) = empty_shop
   \<and> snd (post_api_cart_update (promised server) (Some 7) (Some 2) (Some 3) empty_shop) =
       insert_cart 7 2 3 empty_shop
   \<and> snd (put_api_cart_update_quantity (promised server) (Some 7) (Some 2) (Some 3) empty_shop) =
       empty_shop"
proof -
  have none: "select_cart 7 2 empty_shop = []"
    by (simp add: select_cart_def empty_shop_def)
  have u: "(7 :: nat) \<noteq> 0" and p: "(2 :: nat) \<noteq> 0" and q: "(0 :: int) < 3"
    by simp_all
  from setQuantity_missing_row [OF u p q none, of server]
       setQuantity_missing_row [OF u p q none, of "promised server"] none
  show ?thesis
    by blast
qed

subsection \<open>Adding to the cart\<close>

text \<open>The two steps of a request, run one after the other, are the handler.\<close>

lemma steps_are_handler:
  assumes "u \<noteq> 0" and "p \<noteq> 0" and "q \<noteq> 0"
  shows "run_requests rt [0, 0] [Pending u p q] db =
           ([Answered (fst (post_api_cart_first rt (Some u) (Some p) (Some q) db))],
            snd (post_api_cart_first rt (Some u) (Some p) (Some q) db))"
proof (cases "conn rt")
  case (Callback m)
  with assms show ?thesis
    by (simp add: request_step_def post_api_cart_first_def cart_lookup_def cart_failed_def
        async_defs)
next
  case Promise
  with assms show ?thesis
    by (cases "select_cart u p db")
       (simp_all add: request_step_def post_api_cart_first_def cart_lookup_def cart_merge_def
          cart_failed_def async_defs Let_def)
qed

lemma busy_shop_row: "select_cart 7 1 busy_shop = [\<lparr>c_user_id = 7, c_product_id = 1, c_quantity = 2\<rparr>]"
  by (simp add: select_cart_def busy_shop_def empty_shop_def)

lemma busy_shop_set:
  "snd (update_cart q 7 1 busy_shop) =
     empty_shop\<lparr>cart := [\<lparr>c_user_id = 7, c_product_id = 1, c_quantity = q\<rparr>,
                          \<lparr>c_user_id = 7, c_product_id = 2, c_quantity = 1\<rparr>,
                          \<lparr>c_user_id = 8, c_product_id = 1, c_quantity = 5\<rparr>]\<rparr>"
  by (simp add: update_cart_def busy_shop_def empty_shop_def)

lemma busy_shop_reset:
  "snd (update_cart q' 7 1
      (empty_shop\<lparr>cart := [\<lparr>c_user_id = 7, c_product_id = 1, c_quantity = q\<rparr>,
                           \<lparr>c_user_id = 7, c_product_id = 2, c_quantity = 1\<rparr>,
                           \<lparr>c_user_id = 8, c_product_id = 1, c_quantity = 5\<rparr>]\<rparr>)) =
     empty_shop\<lparr>cart := [\<lparr>c_user_id = 7, c_product_id = 1, c_quantity = q'\<rparr>,
                          \<lparr>c_user_id = 7, c_product_id = 2, c_quantity = 1\<rparr>,
                          \<lparr>c_user_id = 8, c_product_id = 1, c_quantity = 5\<rparr>]\<rparr>"
  by (simp add: update_cart_def empty_shop_def)

lemma busy_shop_reread:
  "select_cart 7 1
      (empty_shop\<lparr>cart := [\<lparr>c_user_id = 7, c_product_id = 1, c_quantity = q\<rparr>,
                           \<lparr>c_user_id = 7, c_product_id = 2, c_quantity = 1\<rparr>,
                           \<lparr>c_user_id = 8, c_product_id = 1, c_quantity = 5\<rparr>]\<rparr>) =
     [\<lparr>c_user_id = 7, c_product_id = 1, c_quantity = q\<rparr>]"
  by (simp add: select_cart_def empty_shop_def)

lemma two_requests_as_written:
  "run_requests (as_written m rt) [0, 1, 0, 1] [Pending 7 1 1, Pending 7 1 1] busy_shop =
     ([Answered (Some (500, failure ''Failed to manage cart'' m)),
       Answered (Some (500, failure ''Failed to manage cart'' m))], busy_shop)"
  by (simp add: request_step_def cart_lookup_def cart_failed_def async_defs)

lemma request_step_lookup_promised:
  "request_step (promised rt) (Pending u p q) db = (Awaited u p q (Inr (select_cart u p db)), db)"
  by (simp add: request_step_def cart_lookup_def async_defs)

lemma request_step_merge_promised:
  "request_step (promised rt) (Awaited u p q (Inr (r # rs))) db =
     (Answered (Some (200, JObj [(''message'', JStr ''Cart updated successfully''),
                                 (''cartItem'', cartItem u p (c_quantity r + q))])),
      snd (update_cart (c_quantity r + q) u p db))"
  by (simp add: request_step_def cart_merge_def async_defs Let_def)

lemmas busy_shop_facts =
  busy_shop_row busy_shop_set busy_shop_reset busy_shop_reread
  busy_shop_row [unfolded One_nat_def] busy_shop_set [unfolded One_nat_def]
  busy_shop_reset [unfolded One_nat_def] busy_shop_reread [unfolded One_nat_def]

lemma lost_update:
  "map c_quantity (select_cart 7 1
     (snd (run_requests (promised rt) [0, 1, 0, 1] [Pending 7 1 1, Pending 7 1 1] busy_shop))) =
     [3]"
  by (simp add: request_step_lookup_promised request_step_merge_promised busy_shop_facts)

lemma one_after_the_other:
  "map c_quantity (select_cart 7 1
     (snd (run_requests (promised rt) [0, 0, 1, 1] [Pending 7 1 1, Pending 7 1 1] busy_shop))) =
     [4]"
  by (simp add: request_step_lookup_promised request_step_merge_promised busy_shop_facts)

text \<open>
  C6. Two \<^verbatim>\<open>POST /api/cart\<close> requests of user 7 for product 1, each adding 1, run
  at the same time on a shop where the row has quantity 2: each makes its lookup before
  the other goes on. As the file is written both lookups throw, both requests are
  answered 500 and the quantity stays 2: neither increment is stored. On a connection of
  the promise interface both read quantity 2 and both write 3, so one increment is lost;
  run one after the other they leave 4. The handler takes no lock and holds no
  transaction between its \<^verbatim>\<open>SELECT\<close> and its \<^verbatim>\<open>UPDATE\<close>.
\<close>

theorem concurrent_addOrMerge:
  "map c_quantity (select_cart 7 1 busy_shop) = [2]
   \<and> run_requests (as_written m rt) [0, 1, 0, 1] [Pending 7 1 1, Pending 7 1 1] busy_shop =
       ([Answered (Some (500, failure ''Failed to manage cart'' m)),
         Answered (Some (500, failure ''Failed to manage cart'' m))], busy_shop)
   \<and> map c_quantity (select_cart 7 1
       (snd (run_requests (promised rt) [0, 1, 0, 1] [Pending 7 1 1, Pending 7 1 1] busy_shop))) =
       [3]
   \<and> map c_quantity (select_cart 7 1
       (snd (run_requests (promised rt) [0, 0, 1, 1] [Pending 7 1 1, Pending 7 1 1] busy_shop))) =
       [4]"
  by (simp only: two_requests_as_written lost_update one_after_the_other busy_shop_row
        list.map cart_row.simps simp_thms)

text \<open>
  On a connection of the promise interface two requests for the same pair, one after the
  other, leave one row with the sum of the two quantities, if there was no row before.
\<close>

lemma addOrMerge_twice_promised:
  assumes "u \<noteq> 0" and "p \<noteq> 0" and "q1 \<noteq> 0" and "q2 \<noteq> 0" and "select_cart u p db = []"
  shows "select_cart u p
           (snd (post_api_cart (promised rt) (Some u) (Some p) (Some q2)
              (snd (post_api_cart (promised rt) (Some u) (Some p) (Some q1) db)))) =
         [\<lparr>c_user_id = u, c_product_id = p, c_quantity = q1 + q2\<rparr>]"
proof -
  have first: "snd (post_api_cart (promised rt) (Some u) (Some p) (Some q1) db) =
      insert_cart u p q1 db"
    using assms by (simp add: post_api_cart_promised_fresh)
  have row: "select_cart u p (insert_cart u p q1 db) =
      [\<lparr>c_user_id = u, c_product_id = p, c_quantity = q1\<rparr>]"
    using assms by (simp add: select_cart_insert)
  from assms row show ?thesis
    unfolding first
    by (simp add: post_api_cart_promised_merge [OF _ _ _ row] select_cart_update)
qed

text \<open>
  C7. \<^verbatim>\<open>POST /api/cart\<close> for user 9 and product 2 with quantity 3 and then with
  quantity 4, on a shop where the pair has no row. As the file is written each request
  is answered 500 and the store is left as it was: afterwards there is no row for the
  pair, where the claim has one row of quantity 7.
\<close>

theorem addOrMerge_twice_as_written:
  "select_cart 9 2 busy_shop = []
   \<and> post_api_cart (as_written m rt) (Some 9) (Some 2) (Some 3) busy_shop =
       (Some (500, failure ''Failed to manage cart'' m), busy_shop)
   \<and> post_api_cart (as_written m rt) (Some 9) (Some 2) (Some 4)
       (snd (post_api_cart (as_written m rt) (Some 9) (Some 2) (Some 3) busy_shop)) =
       (Some (500, failure ''Failed to manage cart'' m), busy_shop)
   \<and> select_cart 9 2
       (snd (post_api_cart (as_written m rt) (Some 9) (Some 2) (Some 4)
          (snd (post_api_cart (as_written m rt) (Some 9) (Some 2) (Some 3) busy_shop)))) = []"
proof -
  have "select_cart 9 2 busy_shop = []"
    by (simp add: select_cart_def busy_shop_def empty_shop_def)
  then show ?thesis
    by (simp add: post_api_cart_as_written)
qed

subsection \<open>Removing from the cart\<close>

lemma json_get_product_id:
  "json_get ''product_id'' (cart_item_json cp) = Some (JNum (of_nat (c_product_id (fst cp))))"
  by (simp add: cart_item_json_def)

lemma in_select_cart_join:
  "cp \<in> set (select_cart_join key s db) \<Longrightarrow>
   fst cp \<in> set (cart db) \<and> key s = Some (c_user_id (fst cp))"
  by (auto simp add: select_cart_join_def)

lemma listed_items_get_api_cart:
  "j \<in> set (listed_items (fst (get_api_cart rt s db))) \<Longrightarrow>
   \<exists>cp \<in> set (select_cart_join (sql_key rt) s db). j = cart_item_json cp"
  by (cases "conn rt"; cases "s = []"; cases "select_cart_join (sql_key rt) s db = []")
     (auto simp add: get_api_cart_def async_defs listed_items_def failure_def refusal_def Let_def)

lemma listed_items_without:
  assumes "sql_key rt s = Some u" and "select_cart u p db = []"
  shows "filter (\<lambda>j. json_get ''product_id'' j = Some (JNum (of_nat p)))
           (listed_items (fst (get_api_cart rt s db))) = []"
proof -
  have "json_get ''product_id'' j \<noteq> Some (JNum (of_nat p))"
    if "j \<in> set (listed_items (fst (get_api_cart rt s db)))" for j
  proof -
    from listed_items_get_api_cart [OF that] obtain cp
      where cp: "cp \<in> set (select_cart_join (sql_key rt) s db)" and j: "j = cart_item_json cp"
      by blast
    from in_select_cart_join [OF cp] assms(1)
    have mem: "fst cp \<in> set (cart db)" and usr: "c_user_id (fst cp) = u"
      by simp_all
    have "c_product_id (fst cp) \<noteq> p"
    proof
      assume "c_product_id (fst cp) = p"
      with mem usr have "fst cp \<in> set (select_cart u p db)"
        by (simp add: select_cart_def)
      with assms(2) show False
        by simp
    qed
    then show ?thesis
      by (simp add: j json_get_product_id)
  qed
  then show ?thesis
    by (simp add: filter_empty_conv)
qed

text \<open>
  C8. Setting the quantity of a pair to zero or less with \<^verbatim>\<open>POST /api/cart/update\<close>
  leaves the store that \<^verbatim>\<open>DELETE /api/cart/remove\<close> leaves: both send the same
  \<^verbatim>\<open>DELETE\<close>. Afterwards the pair has no row, and the items of the cart listing of
  the user have none for the product. This holds on either interface of the driver: as
  the file is written the statement is sent before the await throws, and the listing,
  answered 500, has no items at all.
\<close>

theorem setQuantity_zero_is_remove:
  assumes "u \<noteq> 0" and "p \<noteq> 0" and "q \<le> 0" and "sql_key rt s = Some u"
  shows "snd (post_api_cart_update rt (Some u) (Some p) (Some q) db) =
           snd (delete_api_cart_remove rt (Some u) (Some p) db)
         \<and> select_cart u p (snd (post_api_cart_update rt (Some u) (Some p) (Some q) db)) = []
         \<and> filter (\<lambda>j. json_get ''product_id'' j = Some (JNum (of_nat p)))
             (listed_items
                (fst (get_api_cart rt s
                        (snd (post_api_cart_update rt (Some u) (Some p) (Some q) db))))) = []
         \<and> cart (snd (post_api_cart_update rt (Some u) (Some p) (Some q) db)) =
             filter (\<lambda>r. \<not> (c_user_id r = u \<and> c_product_id r = p)) (cart db)"
proof -
  have store: "snd (post_api_cart_update rt (Some u) (Some p) (Some q) db) =
      snd (delete_cart u p db)"
    using assms by (simp add: post_api_cart_update_store)
  have gone: "select_cart u p (snd (delete_cart u p db)) = []"
    by (rule select_cart_delete)
  from assms store gone listed_items_without [OF assms(4) gone] show ?thesis
    by (simp add: delete_api_cart_remove_store) (simp add: delete_cart_def)
qed

theorem setQuantity_zero_is_remove_witness:
  "digits_key ''7'' = Some 7
   \<and> snd (post_api_cart_update server (Some 7) (Some 1) (Some 0) busy_shop) =
       snd (delete_api_cart_remove server (Some 7) (Some 1) busy_shop)
   \<and> select_cart 7 1 (snd (post_api_cart_update server (Some 7) (Some 1) (Some 0) busy_shop)) = []
   \<and> cart (snd (post_api_cart_update server (Some 7) (Some 1) (Some 0) busy_shop)) =
       [\<lparr>c_user_id = 7, c_product_id = 2, c_quantity = 1\<rparr>,
        \<lparr>c_user_id = 8, c_product_id = 1, c_quantity = 5\<rparr>]
   \<and> filter (\<lambda>j. json_get ''product_id'' j = Some (JNum (of_nat 1)))
       (listed_items
          (fst (get_api_cart (promised server) ''7''
                  (snd (post_api_cart_update (promised server) (Some 7) (Some 1) (Some 0)
                          busy_shop))))) = []
   \<and> cart (snd (post_api_cart_update (promised server) (Some 7) (Some 1) (Some 0) busy_shop)) =
       [\<lparr>c_user_id = 7, c_product_id = 2, c_quantity = 1\<rparr>,
        \<lparr>c_user_id = 8, c_product_id = 1, c_quantity = 5\<rparr>]"
proof -
  have key: "digits_key ''7'' = Some 7"
    by (simp add: digits_key_def digit_val_def)
  have u: "(7 :: nat) \<noteq> 0" and p: "(1 :: nat) \<noteq> 0" and q: "(0 :: int) \<le> 0"
    by simp_all
  have k: "sql_key server ''7'' = Some 7" and k': "sql_key (promised server) ''7'' = Some 7"
    by (simp_all add: server_def key)
  have rest: "filter (\<lambda>r. \<not> (c_user_id r = 7 \<and> c_product_id r = 1)) (cart busy_shop) =
       [\<lparr>c_user_id = 7, c_product_id = 2, c_quantity = 1\<rparr>,
        \<lparr>c_user_id = 8, c_product_id = 1, c_quantity = 5\<rparr>]"
    by (simp add: busy_shop_def empty_shop_def)
  note written = setQuantity_zero_is_remove [OF u p q k, of busy_shop]
  note promise = setQuantity_zero_is_remove [OF u p q k', of busy_shop]
  have a: "snd (post_api_cart_update server (Some 7) (Some 1) (Some 0) busy_shop) =
       snd (delete_api_cart_remove server (Some 7) (Some 1) busy_shop)"
    using written by blast
  have b: "select_cart 7 1
      (snd (post_api_cart_update server (Some 7) (Some 1) (Some 0) busy_shop)) = []"
    using written by blast
  from written
  have "cart (snd (post_api_cart_update server (Some 7) (Some 1) (Some 0) busy_shop)) =
       filter (\<lambda>r. \<not> (c_user_id r = 7 \<and> c_product_id r = 1)) (cart busy_shop)"
    by blast
  then have c: "cart (snd (post_api_cart_update server (Some 7) (Some 1) (Some 0) busy_shop)) =
       [\<lparr>c_user_id = 7, c_product_id = 2, c_quantity = 1\<rparr>,
        \<lparr>c_user_id = 8, c_product_id = 1, c_quantity = 5\<rparr>]"
    unfolding rest .
  have d: "filter (\<lambda>j. json_get ''product_id'' j = Some (JNum (of_nat 1)))
       (listed_items
          (fst (get_api_cart (promised server) ''7''
                  (snd (post_api_cart_update (promised server) (Some 7) (Some 1) (Some 0)
                          busy_shop))))) = []"
    using promise by blast
  from promise
  have "cart (snd (post_api_cart_update (promised server) (Some 7) (Some 1) (Some 0)
        busy_shop)) =
       filter (\<lambda>r. \<not> (c_user_id r = 7 \<and> c_product_id r = 1)) (cart busy_shop)"
    by blast
  then have e: "cart (snd (post_api_cart_update (promised server) (Some 7) (Some 1) (Some 0)
        busy_shop)) =
       [\<lparr>c_user_id = 7, c_product_id = 2, c_quantity = 1\<rparr>,
        \<lparr>c_user_id = 8, c_product_id = 1, c_quantity = 5\<rparr>]"
    unfolding rest .
  from key a b c d e show ?thesis
    by blast
qed

section \<open>Order queries\<close>

lemma server_reads_digits:
  "sql_key (promised server) ''3'' = Some 3" "sql_key (promised server) ''7'' = Some 7"
  "sql_key (promised server) ''8'' = Some 8" "sql_key (promised server) ''9'' = Some 9"
  by (simp_all add: server_def digits_key_def digit_val_def)

text \<open>
  What \<^verbatim>\<open>GET /api/orders/:orderId\<close> is written to do shows on a connection of the
  promise interface: the owner of order 3 gets it, under either form of the id, and
  another user gets 404.
\<close>

lemma getOrder_promised:
  "get_api_orders_orderId (promised server) (Some ''7'') ''ORD-3'' order_shop =
     (Some (200, JObj [(''id'', JStr ''ORD-3''), (''date'', JStr ''2024-06-01''),
                       (''total'', JNum 12),
                       (''items'', JArr [JObj [(''product_id'', JNum 1),
                                               (''name'', JStr ''Keyboard''),
                                               (''price'', JNum 12), (''quantity'', JNum 1),
                                               (''image'', JStr ''kb.png'')]])]),
      order_shop)
   \<and> get_api_orders_orderId (promised server) (Some ''7'') ''3'' order_shop =
       get_api_orders_orderId (promised server) (Some ''7'') ''ORD-3'' order_shop
   \<and> get_api_orders_orderId (promised server) (Some ''8'') ''ORD-3'' order_shop =
       (Some (404, refusal ''Order not found''), order_shop)"
  by (simp add: get_api_orders_orderId_def async_defs Let_def server_reads_digits
        order_shop_def select_items_join_def catalog_def order_json_def order_item_json_def
        server_def promised_def iso_date_def toISOString_def pad_def show_nat.simps
        digit_char_def digits_key_def digit_val_def)

text \<open>
  C9. \<^verbatim>\<open>GET /api/orders/:orderId\<close> on a shop where order 3 belongs to user 7. As
  the file is written the owner, asking by \<open>ORD-3\<close> or by \<open>3\<close>, is answered 500 and
  does not get the order; another user, and the owner asking for an order that does not
  exist, are answered the same 500, where the claim has not-found. The await of the
  first \<^verbatim>\<open>SELECT\<close> throws.
\<close>

theorem getOrder_as_written:
  "get_api_orders_orderId (as_written m rt) (Some ''7'') ''ORD-3'' order_shop =
     (Some (500, failure ''Failed to retrieve order details'' m), order_shop)
   \<and> get_api_orders_orderId (as_written m rt) (Some ''7'') ''3'' order_shop =
     (Some (500, failure ''Failed to retrieve order details'' m), order_shop)
   \<and> get_api_orders_orderId (as_written m rt) (Some ''8'') ''ORD-3'' order_shop =
     (Some (500, failure ''Failed to retrieve order details'' m), order_shop)
   \<and> get_api_orders_orderId (as_written m rt) (Some ''7'') ''ORD-99'' order_shop =
     (Some (500, failure ''Failed to retrieve order details'' m), order_shop)
   \<and> map o_user_id (filter (\<lambda>r. o_id r = 3) (orders order_shop)) = [7]
   \<and> filter (\<lambda>r. o_id r = 99) (orders order_shop) = []"
  by (simp add: get_api_orders_orderId_as_written) (simp add: order_shop_def)

text \<open>
  What \<^verbatim>\<open>GET /api/orders\<close> is written to do shows on a connection of the promise
  interface: the orders of user 7, newest first, each line with the price it was bought
  at; and an empty list for user 9, who has no order.
\<close>

lemma listOrders_promised:
  "get_api_orders (promised server) (Some ''7'') order_shop =
     (Some (200, JArr [JObj [(''id'', JStr ''ORD-3''), (''date'', JStr ''2024-06-01''),
                             (''total'', JNum 12),
                             (''items'', JArr [JObj [(''product_id'', JNum 1),
                                                     (''name'', JStr ''Keyboard''),
                                                     (''price'', JNum 12), (''quantity'', JNum 1),
                                                     (''image'', JStr ''kb.png'')]])],
                       JObj [(''id'', JStr ''ORD-1''), (''date'', JStr ''2024-05-17''),
                             (''total'', JNum 25),
                             (''items'', JArr [JObj [(''product_id'', JNum 1),
                                                     (''name'', JStr ''Keyboard''),
                                                     (''price'', JNum 10), (''quantity'', JNum 2),
                                                     (''image'', JStr ''kb.png'')],
                                               JObj [(''product_id'', JNum 2),
                                                     (''name'', JStr ''Mouse''),
                                                     (''price'', JNum 5), (''quantity'', JNum 1),
                                                     (''image'', JStr ''mouse.png'')]])]]),
      order_shop)
   \<and> get_api_orders (promised server) (Some ''9'') order_shop = (Some (200, JArr []), order_shop)"
  by (simp add: get_api_orders_def async_defs Let_def server_reads_digits select_orders_def
        order_shop_def noon_def select_items_join_def catalog_def group_item_def order_json_def
        order_item_json_def server_def promised_def iso_date_def toISOString_def pad_def
        show_nat.simps digit_char_def digits_key_def digit_val_def)

lemma listOrders_stray:
  "get_api_orders (promised server) (Some ''7'') stray_shop =
     (Some (200, JArr [JObj [(''id'', JStr ''ORD-1''), (''date'', JStr ''2024-05-17''),
                             (''total'', JNum 3), (''items'', JArr [])]]),
      stray_shop)"
  by (simp add: get_api_orders_def async_defs Let_def server_reads_digits select_orders_def
        stray_shop_def noon_def select_items_join_def catalog_def group_item_def order_json_def
        server_def promised_def iso_date_def toISOString_def pad_def
        show_nat.simps digit_char_def digits_key_def digit_val_def)

text \<open>
  C10. \<^verbatim>\<open>GET /api/orders\<close> on a shop where user 7 has two orders and user 9 has
  none. As the file is written user 7 is answered 500 and gets no list, and user 9 is
  answered 500, an error, where the claim has an empty list. The await of the first
  \<^verbatim>\<open>SELECT\<close> throws. On a connection of the promise interface there is a second way
  to miss the claim: an order line whose product the catalog does not have is dropped by
  the join with \<^verbatim>\<open>products\<close>, so the order of the second shop, which has one line,
  is listed with no items.
\<close>

theorem listOrders_as_written:
  "get_api_orders (as_written m rt) (Some ''7'') order_shop =
     (Some (500, failure ''Failed to retrieve orders'' m), order_shop)
   \<and> map o_id (filter (\<lambda>r. o_user_id r = 7) (orders order_shop)) = [1, 3]
   \<and> get_api_orders (as_written m rt) (Some ''9'') order_shop =
     (Some (500, failure ''Failed to retrieve orders'' m), order_shop)
   \<and> filter (\<lambda>r. o_user_id r = 9) (orders order_shop) = []
   \<and> map oi_product_id (filter (\<lambda>oi. oi_order_id oi = 1) (order_items stray_shop)) = [99]
   \<and> get_api_orders (promised server) (Some ''7'') stray_shop =
     (Some (200, JArr [JObj [(''id'', JStr ''ORD-1''), (''date'', JStr ''2024-05-17''),
                             (''total'', JNum 3), (''items'', JArr [])]]),
      stray_shop)"
  by (simp add: get_api_orders_as_written listOrders_stray)
     (simp add: order_shop_def stray_shop_def)

end
